theory Spec2Isabelle
  imports Main "HOL-Library.Word" "HOL-Library.Numeral_Type"
begin

unbundle bit_operations_syntax

chapter \<open>Prox2: the signature verifier, the moderation workflow and the event handler\<close>

text \<open>
  A shallow embedding of \<open>src/lib/main.ts\<close> (\<open>verifySignature\<close>, \<open>hashUser\<close>,
  \<open>sameUser\<close>, \<open>stageConfession\<close>, \<open>viewConfession\<close>) and of the handler of the event
  endpoint. The functions are asynchronous but sequential: each one is a function from
  the answers of the outside (clock, random bytes, Airtable, Slack) and the state of the
  outside to the new state and either a value or the exception thrown. The functions
  of the \<open>crypto\<close> module (HMAC-SHA256, scrypt) are parameters.
\<close>

section \<open>Strings, bytes and numbers as the JavaScript runtime has them\<close>

text \<open>
  A JavaScript exception is a value of \<open>exn\<close>: \<open>Thrown s\<close> is a \<open>throw\<close> of the
  string \<open>s\<close> written in the source, the other constructors are exceptions raised by the
  runtime or by a library (\<open>crypto.timingSafeEqual\<close>, a property read on \<open>undefined\<close>,
  the Slack client, the Airtable client).
\<close>

datatype exn = Thrown string | RangeError | TypeError | SlackError | AirtableError

datatype 'a result = Returns 'a | Throws exn

text \<open>
  \<open>Buffer.from(s)\<close> encodes a string in UTF-8. A \<open>char\<close> is a code point below 256
  (what a header value decoded by Node holds): below 128 it is one byte, otherwise two.
\<close>

definition utf8 :: "char \<Rightarrow> nat list" where
  "utf8 c = (let n = (of_char c :: nat)
             in if n < 128 then [n] else [192 + n div 64, 128 + n mod 64])"

definition Buffer_from :: "string \<Rightarrow> nat list" where
  "Buffer_from s = concat (map utf8 s)"

text \<open>
  \<open>crypto.timingSafeEqual(a, b)\<close> throws a \<open>RangeError\<close> when the two buffers differ in
  byte length and compares them otherwise.
\<close>

definition timingSafeEqual :: "nat list \<Rightarrow> nat list \<Rightarrow> bool result" where
  "timingSafeEqual a b = (if length a \<noteq> length b then Throws RangeError else Returns (a = b))"

text \<open>\<open>.digest('hex')\<close> and \<open>.toString('hex')\<close>: two lower-case digits per byte.\<close>

definition hex_digit :: "nat \<Rightarrow> char" where
  "hex_digit n = (if n < 10 then char_of (48 + n) else char_of (87 + n))"

definition to_hex :: "'a::len word \<Rightarrow> string" where
  "to_hex w = map (\<lambda>i. hex_digit (unat (drop_bit (4 * i) w AND 15))) (rev [0..<LENGTH('a) div 4])"

text \<open>Template literals print a non-negative integer in decimal.\<close>

fun decimal :: "nat \<Rightarrow> string" where
  "decimal n = (if n < 10 then [char_of (48 + n)] else decimal (n div 10) @ [char_of (48 + n mod 10)])"

declare decimal.simps [simp del]

text \<open>
  \<open>parseInt(s, 10)\<close>: skip leading white space, read an optional sign, then the longest
  run of decimal digits; \<open>NaN\<close> (here \<open>None\<close>) when that run is empty. The value is kept
  as an unbounded integer: the only use of the result is a comparison of a difference
  with 300, which rounding to a double does not change.
\<close>

definition is_ws :: "char \<Rightarrow> bool" where
  "is_ws c = ((of_char c :: nat) \<in> {9, 10, 11, 12, 13, 32, 160})"

definition is_digit :: "char \<Rightarrow> bool" where
  "is_digit c = (48 \<le> (of_char c :: nat) \<and> (of_char c :: nat) \<le> 57)"

definition digit_val :: "char \<Rightarrow> nat" where
  "digit_val c = of_char c - 48"

definition parseInt :: "string \<Rightarrow> int option" where
  "parseInt s =
     (let S = dropWhile is_ws s;
          sign = (case S of [] \<Rightarrow> 1 | c # _ \<Rightarrow> if c = CHR ''-'' then - 1 else (1::int));
          S' = (case S of [] \<Rightarrow> S | c # r \<Rightarrow> if c = CHR ''-'' \<or> c = CHR ''+'' then r else S);
          Z = takeWhile is_digit S'
      in if Z = [] then None
         else Some (sign * int (foldl (\<lambda>a c. 10 * a + digit_val c) 0 Z)))"

section \<open>Requests and the signature verifier\<close>

text \<open>A header of \<open>req.headers\<close> is \<open>undefined\<close>, a string or an array of strings.\<close>

datatype header = Absent | Single string | Multi "string list"

record BotProfile =
  app_id :: string

record DMEvent =
  dm_type :: string
  channel_type :: string
  dm_text :: string
  user :: string
  bot_profile :: "BotProfile option"
  channel :: string

text \<open>
  The parsed body of an event delivery, as the handler reads it: the discriminating
  \<open>type\<close>, and the fields of the two variants of \<open>SlackEventPayload\<close>.
\<close>

record SlackEventPayload =
  payload_type :: string
  token :: "string option"
  challenge :: "string option"
  event :: "DMEvent option"

text \<open>
  A request after \<open>setupMiddlewares\<close>: \<open>rawBody\<close> is set by \<open>rawbody_verify\<close> only for
  a non-empty body, and is \<open>undefined\<close> otherwise.
\<close>

record request =
  x_slack_request_timestamp :: header
  x_slack_signature :: header
  rawBody :: "string option"
  body :: SlackEventPayload

text \<open>
  \<open>Math.abs(current_timestamp_int - timestamp_int) > 60 * 5\<close>; every comparison with
  \<open>NaN\<close> is false.
\<close>

definition too_far :: "int \<Rightarrow> int option \<Rightarrow> bool" where
  "too_far current_timestamp_int timestamp_int =
     (case timestamp_int of None \<Rightarrow> False | Some t \<Rightarrow> \<bar>current_timestamp_int - t\<bar> > 60 * 5)"

definition sig_base :: "string \<Rightarrow> request \<Rightarrow> string" where
  "sig_base timestamp req =
     ''v0:'' @ timestamp @ '':'' @ (case rawBody req of None \<Rightarrow> ''undefined'' | Some b \<Rightarrow> b)"

definition my_sig :: "(string \<Rightarrow> string \<Rightarrow> 256 word) \<Rightarrow> string \<Rightarrow> string \<Rightarrow> request \<Rightarrow> string" where
  "my_sig hmac secret timestamp req = ''v0='' @ to_hex (hmac secret (sig_base timestamp req))"

text \<open>
  \<open>verifySignature\<close> (src/lib/main.ts). The HMAC-SHA256 of the \<open>crypto\<close> module is the
  parameter \<open>hmac\<close> (key, then data; a 256-bit digest), the signing secret of the
  \<open>secrets\<close> module is \<open>secret\<close>, and \<open>now_ms\<close> is what \<open>Date.now()\<close> returns,
  in milliseconds (\<open>div\<close> on \<open>int\<close> rounds down, as \<open>Math.floor\<close> does).
\<close>

definition verifySignature ::
  "(string \<Rightarrow> string \<Rightarrow> 256 word) \<Rightarrow> string \<Rightarrow> int \<Rightarrow> request \<Rightarrow> bool result" where
  "verifySignature hmac secret now_ms req =
     (case x_slack_request_timestamp req of
        Absent \<Rightarrow> Returns False
      | Multi _ \<Rightarrow> Returns False
      | Single timestamp \<Rightarrow>
          if too_far (now_ms div 1000) (parseInt timestamp) then Returns False
          else (case x_slack_signature req of
                  Absent \<Rightarrow> Returns False
                | Multi _ \<Rightarrow> Returns False
                | Single slack_sig \<Rightarrow>
                    if slack_sig = ''undefined'' then Returns False
                    else (case timingSafeEqual (Buffer_from (my_sig hmac secret timestamp req))
                                 (Buffer_from slack_sig) of
                            Throws e \<Rightarrow> Throws e
                          | Returns eq \<Rightarrow> if \<not> eq then Returns False else Returns True)))"

section \<open>The collaborators: configuration, the record store, the messaging platform\<close>

text \<open>The constants of the \<open>secrets\<close> module that the functions below read.\<close>

record config =
  staging_channel :: string
  confessions_channel :: string
  slack_signing_secret :: string

text \<open>
  \<open>TableRecord\<close>. The field \<open>id\<close> is \<open>rec_id\<close> and \<open>text\<close> is \<open>rec_text\<close> here (and a variable \<open>fields\<close> of the source is \<open>flds\<close>);
  a time stamp that the table does not hold (an empty cell, or \<open>null\<close> written by
  \<open>patchUpdate\<close>) is \<open>None\<close>.
\<close>

record TableRecord =
  rec_id :: nat
  approved :: bool
  viewed :: bool
  rec_text :: string
  staging_ts :: "string option"
  published_ts :: "string option"
  uid_salt :: string
  uid_hash :: string

record button =
  label :: string
  emoji :: bool
  button_value :: string
  action_id :: string

datatype block = Section string | Actions "button list"

record message =
  msg_text :: string
  blocks :: "block list"

datatype call = ChatPostMessage string message | ChatDelete string string

text \<open>
  What \<open>web.chat.postMessage\<close> answers: a handle with \<open>ok\<close> set and the time stamp
  of the new message, a handle with \<open>ok == false\<close>, or an exception.
\<close>

datatype post_reply = PostOk string | PostNotOk | PostThrows

text \<open>
  The state outside the process: the rows of the table under the keys the store gave
  them, the next key, the messages of every channel with their time stamps, and the
  requests sent to the messaging platform so far.
\<close>

record world =
  table :: "nat \<rightharpoonup> TableRecord"
  next_key :: nat
  channels :: "string \<Rightarrow> (string \<times> message) list"
  requests :: "call list"

text \<open>
  What the outside answers during one invocation: the clock, the replay guard, the
  random bytes of the salt, and for each call of the store and of the messaging
  platform whether it succeeds.
\<close>

record env =
  date_now :: int
  nonce_ok :: bool
  random_bytes :: "128 word"
  create_ok :: bool
  select_ok :: bool
  post_reply :: post_reply
  destroy_ok :: bool
  update_ok :: bool
  delete_ok :: bool

type_synonym airtable_record = "nat \<times> TableRecord"

text \<open>
  Modelled from the spec: the Airtable client (\<open>table.create\<close>, \<open>table.select\<close> with
  \<open>firstPage\<close>, \<open>record.patchUpdate\<close>, \<open>record.destroy\<close>) is a library outside the
  repository; these definitions follow section 4.3 of the specification. A new
  record gets a store-assigned id, \<open>viewed\<close> unset and no time stamps; a lookup returns
  the records whose \<open>staging_ts\<close> is the given one (a page holds at most 100 of them);
  an update changes the given fields of one record; a deletion removes one record.
\<close>

definition table_create :: "string \<Rightarrow> bool \<Rightarrow> string \<Rightarrow> string \<Rightarrow> world \<Rightarrow> airtable_record \<times> world" where
  "table_create txt appr salt hash w =
     (let flds = \<lparr>rec_id = next_key w, approved = appr, viewed = False, rec_text = txt,
                     staging_ts = None, published_ts = None, uid_salt = salt, uid_hash = hash\<rparr>
      in ((next_key w, flds),
          w\<lparr>table := (table w)(next_key w \<mapsto> flds), next_key := Suc (next_key w)\<rparr>))"

definition table_select :: "string \<Rightarrow> world \<Rightarrow> airtable_record list" where
  "table_select ts w =
     List.map_filter
       (\<lambda>k. case table w k of
               None \<Rightarrow> None
             | Some flds \<Rightarrow> if staging_ts flds = Some ts then Some (k, flds) else None)
       [0..<next_key w]"

definition firstPage :: "airtable_record list \<Rightarrow> airtable_record list" where
  "firstPage records = take 100 records"

definition patchUpdate :: "nat \<Rightarrow> (TableRecord \<Rightarrow> TableRecord) \<Rightarrow> world \<Rightarrow> world" where
  "patchUpdate key f w = w\<lparr>table := (table w)(key := map_option f (table w key))\<rparr>"

definition destroy :: "nat \<Rightarrow> world \<Rightarrow> world" where
  "destroy key w = w\<lparr>table := (table w)(key := None)\<rparr>"

text \<open>
  The two calls of the Slack client. Each one is recorded as a request; a message that
  the platform accepts is appended to its channel under the time stamp of the reply, a
  deletion that succeeds removes the message with that time stamp.
\<close>

definition chat_postMessage :: "post_reply \<Rightarrow> string \<Rightarrow> message \<Rightarrow> world \<Rightarrow> world" where
  "chat_postMessage reply ch m w =
     w\<lparr>channels := (case reply of
                       PostOk ts \<Rightarrow> (channels w)(ch := channels w ch @ [(ts, m)])
                     | PostNotOk \<Rightarrow> channels w
                     | PostThrows \<Rightarrow> channels w),
       requests := requests w @ [ChatPostMessage ch m]\<rparr>"

definition chat_delete :: "bool \<Rightarrow> string \<Rightarrow> string \<Rightarrow> world \<Rightarrow> world" where
  "chat_delete ok ch ts w =
     w\<lparr>channels := (if ok then (channels w)(ch := filter (\<lambda>p. fst p \<noteq> ts) (channels w ch))
                     else channels w),
       requests := requests w @ [ChatDelete ch ts]\<rparr>"

section \<open>Identity hashing\<close>

text \<open>
  \<open>crypto.scryptSync(password, salt, 64)\<close> is the parameter \<open>scrypt\<close>: a 64-byte key
  from the bytes of the identity and the salt.
\<close>

definition hashUser :: "(nat list \<Rightarrow> string \<Rightarrow> 512 word) \<Rightarrow> string \<Rightarrow> string \<Rightarrow> string" where
  "hashUser scrypt uid salt = to_hex (scrypt (Buffer_from uid) salt)"

definition sameUser :: "(nat list \<Rightarrow> string \<Rightarrow> 512 word) \<Rightarrow> TableRecord \<Rightarrow> string \<Rightarrow> bool result" where
  "sameUser scrypt flds uid =
     (let new_uid_hash = hashUser scrypt uid (uid_salt flds)
      in timingSafeEqual (Buffer_from (uid_hash flds)) (Buffer_from new_uid_hash))"

section \<open>The moderation workflow\<close>

definition staging_blocks :: "TableRecord \<Rightarrow> block list" where
  "staging_blocks flds =
     [Section (''(staging) *'' @ decimal (rec_id flds) @ ''*: '' @ rec_text flds),
      Actions
        [\<lparr>label = '':true: Approve'', emoji = True,
          button_value = ''approve'', action_id = ''approve''\<rparr>,
         \<lparr>label = '':x: Disapprove'', emoji = True,
          button_value = ''disapprove'', action_id = ''disapprove''\<rparr>,
         \<lparr>label = ''Open in browser'', emoji = True,
          button_value = ''open-in-browser'', action_id = ''open-in-browser''\<rparr>]]"

text \<open>
  \<open>stageConfession\<close>. Only \<open>table.create\<close> and \<open>record.patchUpdate\<close> stand in a
  \<open>try\<close>; an exception of \<open>postMessage\<close> or of \<open>record.destroy\<close> leaves the function
  as it is.
\<close>

definition stageConfession ::
  "(nat list \<Rightarrow> string \<Rightarrow> 512 word) \<Rightarrow> config \<Rightarrow> env \<Rightarrow> string \<Rightarrow> string \<Rightarrow> world
     \<Rightarrow> world \<times> unit result" where
  "stageConfession scrypt cfg e message uid w =
     (let salt = to_hex (random_bytes e);
          hash = hashUser scrypt uid salt
      in if \<not> create_ok e then (w, Throws (Thrown ''Failed to insert Airtable record''))
         else
           (case table_create message False salt hash w of
              ((key, flds), w1) \<Rightarrow>
                (let w2 = chat_postMessage (post_reply e) (staging_channel cfg)
                            \<lparr>msg_text = [], blocks = staging_blocks flds\<rparr> w1
                 in case post_reply e of
                      PostThrows \<Rightarrow> (w2, Throws SlackError)
                    | PostNotOk \<Rightarrow>
                        if \<not> destroy_ok e then (w2, Throws AirtableError)
                        else (destroy key w2,
                              Throws (Thrown ''Failed to post message to staging channel''))
                    | PostOk ts \<Rightarrow>
                        if \<not> update_ok e then (w2, Throws (Thrown ''Failed to update Airtable record''))
                        else (patchUpdate key (\<lambda>f. f\<lparr>staging_ts := Some ts\<rparr>) w2, Returns ()))))"

text \<open>
  The tail of \<open>viewConfession\<close> once the publication, if any, is done: update the
  record, then delete the staging message.
\<close>

definition record_decision ::
  "config \<Rightarrow> env \<Rightarrow> string \<Rightarrow> bool \<Rightarrow> nat \<Rightarrow> string option \<Rightarrow> world \<Rightarrow> world \<times> unit result" where
  "record_decision cfg e ts appr key pub_ts w =
     (if \<not> update_ok e then (w, Throws (Thrown ''Failed to update Airtable record''))
      else
        (let w1 = patchUpdate key (\<lambda>f. f\<lparr>approved := appr, viewed := True, published_ts := pub_ts\<rparr>) w;
             w2 = chat_delete (delete_ok e) (staging_channel cfg) ts w1
         in if \<not> delete_ok e then (w2, Throws (Thrown ''Failed to delete staging message''))
            else (w2, Returns ())))"

definition viewConfession :: "config \<Rightarrow> env \<Rightarrow> string \<Rightarrow> bool \<Rightarrow> world \<Rightarrow> world \<times> unit result" where
  "viewConfession cfg e ts appr w =
     (if \<not> select_ok e then (w, Throws (Thrown ''Failed to fetch Airtable record!''))
      else
        (let records = firstPage (table_select ts w)
         in case records of
              [(key, flds)] \<Rightarrow>
                if appr then
                  (let w1 = chat_postMessage (post_reply e) (confessions_channel cfg)
                              \<lparr>msg_text = ''*'' @ decimal (rec_id flds) @ ''*: '' @ rec_text flds,
                               blocks = []\<rparr> w
                   in case post_reply e of
                        PostThrows \<Rightarrow> (w1, Throws SlackError)
                      | PostNotOk \<Rightarrow> (w1, Throws (Thrown ''Failed to publish message!''))
                      | PostOk published \<Rightarrow> record_decision cfg e ts appr key (Some published) w1)
                else record_decision cfg e ts appr key None w
            | _ \<Rightarrow>
                (w, Throws (Thrown (''Failed to find single record with staging_ts='' @ ts
                                      @ '', got '' @ decimal (length records))))))"

section \<open>The event handler\<close>

record response =
  status :: nat
  res_body :: string

text \<open>
  \<open>handler\<close> (the event endpoint), after \<open>setupMiddlewares\<close> has parsed the body.
  \<open>validateNonce\<close> is imported from \<open>lib/main\<close>, which does not define it: whether
  it throws is the answer \<open>nonce_ok\<close> of the environment. \<open>res.writeHead(n).end()\<close>
  sends the status with an empty body.
\<close>

definition handler ::
  "(string \<Rightarrow> string \<Rightarrow> 256 word) \<Rightarrow> config \<Rightarrow> env \<Rightarrow> request \<Rightarrow> world \<Rightarrow> world \<times> response result" where
  "handler hmac cfg e req w =
     (if \<not> nonce_ok e then (w, Returns \<lparr>status = 400, res_body = []\<rparr>)
      else
        (case verifySignature hmac (slack_signing_secret cfg) (date_now e) req of
           Throws x \<Rightarrow> (w, Throws x)
         | Returns isValid \<Rightarrow>
             if \<not> isValid then (w, Returns \<lparr>status = 400, res_body = []\<rparr>)
             else
               (let payload = body req
                in if payload_type payload = ''event_callback'' then
                     (case event payload of
                        None \<Rightarrow> (w, Throws TypeError)
                      | Some data \<Rightarrow>
                          if dm_type data = ''message'' \<and> channel_type data = ''im''
                             \<and> bot_profile data = None
                          then
                            (let w1 = chat_postMessage (post_reply e) (channel data)
                                        \<lparr>msg_text = ''Uh oh! You can't DM me! Try typing /prox2 in <#''
                                                      @ confessions_channel cfg @ ''> to get started!'',
                                         blocks = []\<rparr> w
                             in case post_reply e of
                                  PostThrows \<Rightarrow> (w1, Throws SlackError)
                                | _ \<Rightarrow> (w1, Returns \<lparr>status = 204, res_body = []\<rparr>))
                          else (w, Returns \<lparr>status = 204, res_body = []\<rparr>))
                   else (w, Returns \<lparr>status = 204, res_body = []\<rparr>))))"

section \<open>Concrete inputs\<close>

text \<open>
  Stand-ins for the two cryptographic parameters, and a configuration, an environment
  where every call succeeds, and two states of the outside world. They are used only to
  run the functions above on concrete inputs.
\<close>

definition zero_hmac :: "string \<Rightarrow> string \<Rightarrow> 256 word" where
  "zero_hmac key data = 0"

definition zero_scrypt :: "nat list \<Rightarrow> string \<Rightarrow> 512 word" where
  "zero_scrypt password salt = 0"

definition test_config :: config where
  "test_config = \<lparr>staging_channel = ''C-staging'', confessions_channel = ''C-confessions'',
                   slack_signing_secret = ''secret''\<rparr>"

definition all_ok :: env where
  "all_ok = \<lparr>date_now = 1700000000000, nonce_ok = True, random_bytes = 0, create_ok = True,
              select_ok = True, post_reply = PostOk ''1700000000.0002'', destroy_ok = True,
              update_ok = True, delete_ok = True\<rparr>"

definition empty_world :: world where
  "empty_world = \<lparr>table = Map.empty, next_key = 0, channels = (\<lambda>ch. []), requests = []\<rparr>"

definition hello_record :: TableRecord where
  "hello_record = \<lparr>rec_id = 0, approved = False, viewed = False, rec_text = ''hello'',
                    staging_ts = Some ''1700000000.0001'', published_ts = None,
                    uid_salt = ''00'', uid_hash = ''00''\<rparr>"

definition hashed_record :: TableRecord where
  "hashed_record = hello_record\<lparr>uid_hash := hashUser zero_scrypt ''U123'' ''00''\<rparr>"

definition challenge_request :: request where
  "challenge_request =
     \<lparr>x_slack_request_timestamp = Single ''1700000000'',
      x_slack_signature =
        Single ''v0=0000000000000000000000000000000000000000000000000000000000000000'',
      rawBody = Some ''{type:url_verification,challenge:abc}'',
      body = \<lparr>payload_type = ''url_verification'', token = None,
              challenge = Some ''abc'', event = None\<rparr>\<rparr>"

definition staged_world :: world where
  "staged_world =
     \<lparr>table = [0 \<mapsto> hello_record], next_key = 1,
      channels = (\<lambda>ch. if ch = ''C-staging''
                         then [(''1700000000.0001'',
                                \<lparr>msg_text = [], blocks = staging_blocks hello_record\<rparr>)]
                         else []),
      requests = []\<rparr>"


section \<open>Bytes, digests and decimal numbers\<close>

lemma nibble_lt: "unat ((w :: 'a::len word) AND 15) < 16"
proof -
  have "unat (w AND 15) \<le> unat (15 :: 'a word)"
    by (rule word_and_le1 [THEN word_le_nat_alt [THEN iffD1]])
  also have "\<dots> \<le> 15" by simp
  finally show ?thesis by simp
qed

lemma to_hex_length: "length (to_hex (w :: 'a::len word)) = LENGTH('a) div 4"
  by (simp add: to_hex_def)

lemma hex_digit_ascii: "n < 16 \<Longrightarrow> (of_char (hex_digit n) :: nat) < 128"
  by (simp add: hex_digit_def)

lemma utf8_ascii: "(of_char c :: nat) < 128 \<Longrightarrow> utf8 c = [of_char c]"
  by (simp add: utf8_def)

lemma Buffer_from_ascii:
  "list_all (\<lambda>c. (of_char c :: nat) < 128) s \<Longrightarrow> length (Buffer_from s) = length s"
  by (induction s) (simp_all add: Buffer_from_def utf8_ascii)

lemma to_hex_ascii: "list_all (\<lambda>c. (of_char c :: nat) < 128) (to_hex w)"
  by (simp add: to_hex_def list_all_iff hex_digit_ascii nibble_lt)

lemma Buffer_from_to_hex_length:
  "length (Buffer_from (to_hex (w :: 'a::len word))) = LENGTH('a) div 4"
  using Buffer_from_ascii [OF to_hex_ascii, of w] by (simp add: to_hex_length)

text \<open>The computed signature is always 67 bytes: \<open>v0=\<close> and 64 hexadecimal digits.\<close>

lemma my_sig_length: "length (Buffer_from (my_sig hmac secret t req)) = 67"
proof -
  have "list_all (\<lambda>c. (of_char c :: nat) < 128) (my_sig hmac secret t req)"
    using to_hex_ascii by (simp add: my_sig_def)
  then have "length (Buffer_from (my_sig hmac secret t req)) = length (my_sig hmac secret t req)"
    by (rule Buffer_from_ascii)
  then show ?thesis by (simp add: my_sig_def to_hex_length)
qed

text \<open>The UTF-8 encoding is prefix-free, so two strings with the same bytes are equal.\<close>

lemma utf8_not_Nil: "utf8 c \<noteq> []"
  by (simp add: utf8_def Let_def)

lemma utf8_prefix_free:
  assumes "utf8 c @ xs = utf8 d @ ys"
  shows "c = d \<and> xs = ys"
proof -
  let ?n = "of_char c :: nat" and ?m = "of_char d :: nat"
  consider "?n < 128" "?m < 128" | "?n < 128" "\<not> ?m < 128"
    | "\<not> ?n < 128" "?m < 128" | "\<not> ?n < 128" "\<not> ?m < 128"
    by blast
  then show ?thesis
  proof cases
    case 1
    with assms show ?thesis by (simp add: utf8_def Let_def)
  next
    case 2
    with assms show ?thesis by (simp add: utf8_def Let_def)
  next
    case 3
    with assms show ?thesis by (simp add: utf8_def Let_def)
  next
    case 4
    with assms have "?n div 64 = ?m div 64" and "?n mod 64 = ?m mod 64" and "xs = ys"
      by (simp_all add: utf8_def Let_def)
    then have "?n = ?m" by (metis div_mult_mod_eq)
    then show ?thesis using \<open>xs = ys\<close> by simp
  qed
qed

lemma Buffer_from_inj: "Buffer_from a = Buffer_from b \<Longrightarrow> a = b"
proof (induction a arbitrary: b)
  case Nil
  then show ?case by (cases b) (simp_all add: Buffer_from_def utf8_not_Nil)
next
  case (Cons c a)
  show ?case
  proof (cases b)
    case Nil
    with Cons.prems show ?thesis by (simp add: Buffer_from_def utf8_not_Nil)
  next
    case (Cons d b')
    with Cons.prems have "utf8 c @ Buffer_from a = utf8 d @ Buffer_from b'"
      by (simp add: Buffer_from_def)
    then have "c = d" and "Buffer_from a = Buffer_from b'"
      using utf8_prefix_free by blast+
    with Cons.IH Cons show ?thesis by simp
  qed
qed

text \<open>\<open>parseInt\<close> reads back what a template literal prints.\<close>

lemma decimal_digits: "list_all is_digit (decimal n)"
proof (induction n rule: decimal.induct)
  case (1 n)
  show ?case
  proof (cases "n < 10")
    case True
    then show ?thesis by (subst decimal.simps) (simp add: is_digit_def)
  next
    case False
    have "n mod 10 < 10" by simp
    then have "is_digit (char_of (48 + n mod 10))" by (simp add: is_digit_def)
    with False 1 show ?thesis by (subst decimal.simps) simp
  qed
qed

lemma decimal_value: "foldl (\<lambda>a c. 10 * a + digit_val c) 0 (decimal n) = n"
proof (induction n rule: decimal.induct)
  case (1 n)
  show ?case
  proof (cases "n < 10")
    case True
    then show ?thesis by (subst decimal.simps) (simp add: digit_val_def)
  next
    case False
    have "n mod 10 < 10" by simp
    then have "digit_val (char_of (48 + n mod 10)) = n mod 10" by (simp add: digit_val_def)
    with False 1 show ?thesis by (subst decimal.simps) simp
  qed
qed

lemma decimal_not_Nil: "decimal n \<noteq> []"
  by (subst decimal.simps) simp

lemma digit_plain: "is_digit c \<Longrightarrow> \<not> is_ws c \<and> c \<noteq> CHR ''-'' \<and> c \<noteq> CHR ''+''"
  by (auto simp: is_digit_def is_ws_def)

lemma parseInt_decimal: "parseInt (decimal n) = Some (int n)"
proof -
  obtain c r where cr: "decimal n = c # r"
    using decimal_not_Nil by (cases "decimal n") auto
  have all: "list_all is_digit (c # r)" using decimal_digits [of n] cr by simp
  then have c: "is_digit c" by simp
  have tw: "takeWhile is_digit (c # r) = c # r"
    using all by (simp add: list_all_iff)
  have val: "foldl (\<lambda>a c. 10 * a + digit_val c) 0 (c # r) = n"
    using decimal_value [of n] cr by simp
  have dw: "dropWhile is_ws (c # r) = c # r"
    using digit_plain [OF c] by simp
  have "parseInt (c # r) =
        Some (1 * int (foldl (\<lambda>a c. 10 * a + digit_val c) 0 (takeWhile is_digit (c # r))))"
    unfolding parseInt_def dw Let_def using digit_plain [OF c] c by simp
  then show ?thesis unfolding cr tw val by simp
qed

lemma parseInt_abc: "parseInt ''abc'' = None"
  by (simp add: parseInt_def is_ws_def is_digit_def)

section \<open>The concrete inputs, evaluated\<close>

lemma zero_digest:
  "to_hex (zero_hmac key data) = ''0000000000000000000000000000000000000000000000000000000000000000''"
  unfolding zero_hmac_def by code_simp

lemma parseInt_1700000000: "parseInt ''1700000000'' = Some 1700000000"
  by (simp add: parseInt_def is_ws_def is_digit_def digit_val_def)

lemma challenge_request_valid:
  "verifySignature zero_hmac ''secret'' 1700000000000 challenge_request = Returns True"
  by (simp add: verifySignature_def challenge_request_def parseInt_1700000000 too_far_def
      my_sig_def zero_digest timingSafeEqual_def)

lemma decimal_0: "decimal 0 = ''0''"
  by code_simp

lemma table_select_staged_world:
  "table_select ''1700000000.0001'' staged_world = [(0, hello_record)]"
  by (simp add: table_select_def staged_world_def hello_record_def map_filter_simps)

lemma table_select_empty_world: "table_select ts empty_world = []"
  by (simp add: table_select_def empty_world_def map_filter_simps)

section \<open>The signature verifier\<close>

text \<open>
  Two of the three rejections of the time stamp hold: a missing header (or one that is
  not a string) and a number more than 300 seconds from the clock.
\<close>

lemma verifySignature_no_timestamp:
  "x_slack_request_timestamp req = Absent \<Longrightarrow> verifySignature hmac secret now_ms req = Returns False"
  by (simp add: verifySignature_def)

lemma verifySignature_stale:
  "x_slack_request_timestamp req = Single t \<Longrightarrow> parseInt t = Some n
   \<Longrightarrow> \<bar>now_ms div 1000 - n\<bar> > 300 \<Longrightarrow> verifySignature hmac secret now_ms req = Returns False"
  by (simp add: verifySignature_def too_far_def)

text \<open>
  The third does not: a time stamp that \<open>parseInt\<close> cannot read passes the window
  check, and the signature alone decides.
\<close>

lemma my_sig_not_undefined: "my_sig hmac secret t req \<noteq> ''undefined''"
  by (simp add: my_sig_def)

lemma verifySignature_NaN:
  assumes "x_slack_request_timestamp req = Single t" and "parseInt t = None"
    and "x_slack_signature req = Single (my_sig hmac secret t req)"
  shows "verifySignature hmac secret now_ms req = Returns True"
  using assms
  by (simp add: verifySignature_def too_far_def timingSafeEqual_def my_sig_not_undefined)

text \<open>
  Claim C1 (a missing, non-numeric or stale time stamp is always rejected) fails for a
  non-numeric time stamp. \<open>parseInt\<close> returns \<open>NaN\<close> for \<open>abc\<close>, the comparison of
  \<open>NaN\<close> with 300 is false, and the request goes on to the signature check; with the
  signature computed over \<open>v0:abc:hello\<close> the verifier accepts it, whatever the clock
  says.
\<close>

theorem verifySignature_accepts_NaN_timestamp:
  "verifySignature hmac secret now_ms
     \<lparr>x_slack_request_timestamp = Single ''abc'',
      x_slack_signature = Single (''v0='' @ to_hex (hmac secret ''v0:abc:hello'')),
      rawBody = Some ''hello'', body = b\<rparr> = Returns True"
  by (simp add: verifySignature_def parseInt_abc too_far_def my_sig_def sig_base_def
      timingSafeEqual_def)

text \<open>
  A signature header of another byte length than the computed signature makes
  \<open>timingSafeEqual\<close> throw, for every request that passes the time stamp check, unless
  the header is the string \<open>undefined\<close>.
\<close>

lemma verifySignature_length_mismatch:
  assumes "x_slack_request_timestamp req = Single t"
    and "parseInt t = Some n" and "\<bar>now_ms div 1000 - n\<bar> \<le> 300"
    and "x_slack_signature req = Single s" and "s \<noteq> ''undefined''"
    and "length (Buffer_from s) \<noteq> 67"
  shows "verifySignature hmac secret now_ms req = Throws RangeError"
  using assms by (simp add: verifySignature_def too_far_def timingSafeEqual_def my_sig_length)

text \<open>
  Claim C10: \<open>verifySignature\<close> is not total over string signature headers. For every
  HMAC function, secret and clock (\<open>ms\<close> milliseconds after the epoch) there is a
  request whose signature header is a string of another byte length than the 67 bytes
  of the computed signature, and on which \<open>verifySignature\<close> throws the \<open>RangeError\<close>
  of the constant-time comparison instead of returning false.
\<close>

theorem verifySignature_not_total:
  "\<exists>req t s. x_slack_request_timestamp req = Single t
      \<and> x_slack_signature req = Single s
      \<and> length (Buffer_from (my_sig hmac secret t req)) = 67
      \<and> length (Buffer_from s) \<noteq> 67
      \<and> verifySignature hmac secret (int ms) req = Throws RangeError"
proof -
  let ?t = "decimal (ms div 1000)"
  let ?req = "\<lparr>x_slack_request_timestamp = Single ?t,
               x_slack_signature = Single ''v0=abc'', rawBody = None,
               body = \<lparr>payload_type = ''url_verification'', token = None,
                       challenge = None, event = None\<rparr>\<rparr>"
  have len: "length (Buffer_from ''v0=abc'') \<noteq> 67"
    by (simp add: Buffer_from_def utf8_def)
  have "verifySignature hmac secret (int ms) ?req = Throws RangeError"
    by (rule verifySignature_length_mismatch [where t = ?t and s = "''v0=abc''"
          and n = "int (ms div 1000)"])
       (simp_all add: parseInt_decimal len zdiv_int)
  with len my_sig_length [of hmac secret ?t ?req] show ?thesis
    by (intro exI [of _ ?req] exI [of _ ?t] exI [of _ "''v0=abc''"]) simp
qed

section \<open>Identity hashing\<close>

lemma hashUser_length: "length (Buffer_from (hashUser scrypt uid salt)) = 128"
proof -
  have "LENGTH(512) div 4 = (128::nat)" by simp
  then show ?thesis unfolding hashUser_def Buffer_from_to_hex_length .
qed

lemma sameUser_other_length:
  assumes "length (Buffer_from (uid_hash flds)) \<noteq> 128"
  shows "sameUser scrypt flds uid = Throws RangeError"
proof -
  have "length (Buffer_from (uid_hash flds))
          \<noteq> length (Buffer_from (hashUser scrypt uid (uid_salt flds)))"
    unfolding hashUser_length by (rule assms)
  then show ?thesis unfolding sameUser_def Let_def timingSafeEqual_def by simp
qed

text \<open>
  Claim C9, amended: for every record whose \<open>uid_hash\<close> is 128 bytes long (the length
  of a 64-byte digest in hexadecimal, which every record written by \<open>stageConfession\<close>
  has) and every candidate identity, \<open>sameUser\<close> returns true if and only if the
  identity hashed with the record's \<open>uid_salt\<close> equals the record's \<open>uid_hash\<close>, and
  false for any other identity.
\<close>

theorem sameUser_digest_length:
  assumes "length (Buffer_from (uid_hash flds)) = 128"
  shows "sameUser scrypt flds uid = Returns (uid_hash flds = hashUser scrypt uid (uid_salt flds))"
proof -
  have len: "length (Buffer_from (uid_hash flds))
          = length (Buffer_from (hashUser scrypt uid (uid_salt flds)))"
    unfolding hashUser_length by (rule assms)
  have inj: "Buffer_from (uid_hash flds) = Buffer_from (hashUser scrypt uid (uid_salt flds))
                   \<longleftrightarrow> uid_hash flds = hashUser scrypt uid (uid_salt flds)"
  proof
    assume "Buffer_from (uid_hash flds) = Buffer_from (hashUser scrypt uid (uid_salt flds))"
    then show "uid_hash flds = hashUser scrypt uid (uid_salt flds)" by (rule Buffer_from_inj)
  next
    assume "uid_hash flds = hashUser scrypt uid (uid_salt flds)"
    then show "Buffer_from (uid_hash flds) = Buffer_from (hashUser scrypt uid (uid_salt flds))"
      by simp
  qed
  show ?thesis unfolding sameUser_def Let_def timingSafeEqual_def inj using len by simp
qed

text \<open>The amended claim at a record whose hash is the digest of \<open>U123\<close>.\<close>

theorem sameUser_digest_length_witness:
  "length (Buffer_from (uid_hash hashed_record)) = 128
   \<and> sameUser zero_scrypt hashed_record ''U123'' = Returns True"
proof -
  have len: "length (Buffer_from (uid_hash hashed_record)) = 128"
    unfolding hashed_record_def by (simp add: hashUser_length)
  have "uid_hash hashed_record = hashUser zero_scrypt ''U123'' (uid_salt hashed_record)"
    by (simp add: hashed_record_def hello_record_def)
  with len sameUser_digest_length [OF len, of zero_scrypt "''U123''"] show ?thesis by simp
qed

text \<open>
  Claim C9 as stated (for every record, false for any identity that does not match)
  fails at a record whose \<open>uid_hash\<close> is not 128 bytes long: \<open>timingSafeEqual\<close>
  throws a \<open>RangeError\<close> and \<open>sameUser\<close> returns nothing.
\<close>

theorem sameUser_short_hash_throws:
  "uid_hash hello_record = ''00'' \<and> sameUser zero_scrypt hello_record ''U123'' = Throws RangeError"
proof -
  have "length (Buffer_from (uid_hash hello_record)) \<noteq> 128"
    by (simp add: hello_record_def Buffer_from_def utf8_def)
  then have "sameUser zero_scrypt hello_record ''U123'' = Throws RangeError"
    by (rule sameUser_other_length)
  then show ?thesis by (simp add: hello_record_def)
qed

section \<open>The record store\<close>

lemma map_filter_mem: "y \<in> set (List.map_filter f xs) \<longleftrightarrow> (\<exists>x\<in>set xs. f x = Some y)"
  by (induction xs) (auto simp: map_filter_simps split: option.splits)

lemma sel_fun:
  "(case table w x of None \<Rightarrow> None
     | Some flds \<Rightarrow> if staging_ts flds = Some ts then Some (x, flds) else None) = Some (k, f)
   \<longleftrightarrow> x = k \<and> table w k = Some f \<and> staging_ts f = Some ts"
proof (cases "table w x")
  case None
  then show ?thesis by (cases "x = k") simp_all
next
  case (Some a)
  show ?thesis
  proof (cases "x = k")
    case True
    with Some show ?thesis by (cases "a = f") simp_all
  next
    case False
    with Some show ?thesis by simp
  qed
qed

lemma table_select_mem:
  "(k, f) \<in> set (table_select ts w)
     \<longleftrightarrow> k < next_key w \<and> table w k = Some f \<and> staging_ts f = Some ts"
  unfolding table_select_def map_filter_mem sel_fun by simp

lemma table_select_single:
  assumes "table_select ts w = [(key, flds)]"
  shows "table w key = Some flds"
proof -
  have "(key, flds) \<in> set (table_select ts w)" unfolding assms by simp
  then show ?thesis unfolding table_select_mem by simp
qed

lemma firstPage_single: "firstPage [r] = [r]"
  by (simp add: firstPage_def)

lemma length_firstPage: "length (firstPage rs) = min 100 (length rs)"
  by (simp add: firstPage_def min.commute)

lemma not_single_case:
  "length rs \<noteq> 1 \<Longrightarrow> (case rs of [(key, flds)] \<Rightarrow> A key flds | _ \<Rightarrow> B) = B"
  by (cases rs; cases "tl rs") (auto split: prod.splits list.splits)

lemma map_filter_cong_set:
  "(\<And>x. x \<in> set xs \<Longrightarrow> f x = g x) \<Longrightarrow> List.map_filter f xs = List.map_filter g xs"
proof (induction xs)
  case Nil
  show ?case by (simp add: map_filter_simps)
next
  case (Cons a xs)
  have "List.map_filter f xs = List.map_filter g xs"
    by (rule Cons.IH) (simp add: Cons.prems)
  moreover have "f a = g a" by (rule Cons.prems) simp
  ultimately show ?case by (simp add: map_filter_simps split: option.splits)
qed

lemma map_filter_app:
  "List.map_filter f (xs @ ys) = List.map_filter f xs @ List.map_filter f ys"
  by (induction xs) (simp_all add: map_filter_simps split: option.splits)

lemma table_select_Suc:
  assumes "next_key w' = Suc (next_key w)"
    and "\<And>k. k < next_key w \<Longrightarrow> table w' k = table w k"
    and "table w' (next_key w) = Some flds" and "staging_ts flds = Some ts"
  shows "table_select ts w' = table_select ts w @ [(next_key w, flds)]"
proof -
  let ?g = "\<lambda>w k. case table w k of None \<Rightarrow> None
              | Some flds \<Rightarrow> if staging_ts flds = Some ts then Some (k, flds) else None"
  have "List.map_filter (?g w') [0..<next_key w] = List.map_filter (?g w) [0..<next_key w]"
    by (rule map_filter_cong_set) (simp add: assms(2))
  moreover have "List.map_filter (?g w') [next_key w] = [(next_key w, flds)]"
    by (simp add: map_filter_simps assms(3,4))
  ultimately show ?thesis
    unfolding table_select_def assms(1) by (simp add: map_filter_app)
qed

section \<open>Staging a confession\<close>

lemma stageConfession_posted:
  assumes "create_ok e" and "post_reply e = PostOk ts" and "update_ok e"
  shows "stageConfession scrypt cfg e message uid w =
           (patchUpdate (next_key w) (\<lambda>f. f\<lparr>staging_ts := Some ts\<rparr>)
              (chat_postMessage (PostOk ts) (staging_channel cfg)
                 \<lparr>msg_text = [], blocks = staging_blocks
                    \<lparr>rec_id = next_key w, approved = False, viewed = False, rec_text = message,
                     staging_ts = None, published_ts = None, uid_salt = to_hex (random_bytes e),
                     uid_hash = hashUser scrypt uid (to_hex (random_bytes e))\<rparr>\<rparr>
                 (snd (table_create message False (to_hex (random_bytes e))
                         (hashUser scrypt uid (to_hex (random_bytes e))) w))),
            Returns ())"
  using assms by (simp add: stageConfession_def Let_def table_create_def)

lemma stageConfession_Returns:
  assumes "stageConfession scrypt cfg e message uid w = (w', Returns ())"
  shows "create_ok e \<and> update_ok e \<and> (\<exists>ts. post_reply e = PostOk ts)"
proof (cases "create_ok e")
  case False
  with assms show ?thesis by (simp add: stageConfession_def Let_def)
next
  case True
  show ?thesis
  proof (cases "post_reply e")
    case PostThrows
    with True assms show ?thesis by (simp add: stageConfession_def Let_def table_create_def)
  next
    case PostNotOk
    with True assms show ?thesis
      by (cases "destroy_ok e") (simp_all add: stageConfession_def Let_def table_create_def)
  next
    case (PostOk ts)
    with True assms show ?thesis
      by (cases "update_ok e") (simp_all add: stageConfession_def Let_def table_create_def)
  qed
qed

lemma staged_table:
  "table (patchUpdate (next_key w) f (chat_postMessage reply ch m
            (snd (table_create txt appr salt hash w)))) =
   (table w)(next_key w \<mapsto> f \<lparr>rec_id = next_key w, approved = appr, viewed = False,
       rec_text = txt, staging_ts = None, published_ts = None, uid_salt = salt, uid_hash = hash\<rparr>)"
  by (simp add: patchUpdate_def chat_postMessage_def table_create_def Let_def)

lemma staged_next_key:
  "next_key (patchUpdate (next_key w) f (chat_postMessage reply ch m
            (snd (table_create txt appr salt hash w)))) = Suc (next_key w)"
  by (simp add: patchUpdate_def chat_postMessage_def table_create_def Let_def)

text \<open>
  The rollback is there when the post returns \<open>ok == false\<close> (and the deletion
  succeeds): the record created at the start is gone and the string thrown is the one
  for the user.
\<close>

lemma stageConfession_not_ok_rolls_back:
  assumes "create_ok e" and "post_reply e = PostNotOk" and "destroy_ok e"
  shows "snd (stageConfession scrypt cfg e message uid w)
           = Throws (Thrown ''Failed to post message to staging channel'')
         \<and> table (fst (stageConfession scrypt cfg e message uid w)) = (table w)(next_key w := None)"
  using assms
  by (simp add: stageConfession_def Let_def table_create_def chat_postMessage_def destroy_def)

text \<open>
  Claim C3 (if the staging post fails, by \<open>ok == false\<close> or by an exception, the
  record created at the start is deleted and a user-visible error is raised) fails when
  the post throws. \<open>postMessage\<close> is not in a \<open>try\<close>: the exception of the Slack
  client leaves \<open>stageConfession\<close> at once, \<open>record.destroy\<close> is never called, and
  the record created under the key \<open>next_key w\<close> is still in the table.
\<close>

theorem stageConfession_post_throws_keeps_record:
  "snd (stageConfession scrypt cfg (e\<lparr>create_ok := True, post_reply := PostThrows\<rparr>) message uid w)
     = Throws SlackError
   \<and> table (fst (stageConfession scrypt cfg (e\<lparr>create_ok := True, post_reply := PostThrows\<rparr>)
                    message uid w)) (next_key w)
     = Some \<lparr>rec_id = next_key w, approved = False, viewed = False, rec_text = message,
             staging_ts = None, published_ts = None, uid_salt = to_hex (random_bytes e),
             uid_hash = hashUser scrypt uid (to_hex (random_bytes e))\<rparr>"
  by (simp add: stageConfession_def Let_def table_create_def chat_postMessage_def)

text \<open>
  What a successful \<open>stageConfession\<close> does to the lookup by the time stamp \<open>ts\<close> of
  the staging post: the record just created, with \<open>staging_ts = ts\<close>, comes after the
  records that carried \<open>ts\<close> before.
\<close>

lemma stage_then_select:
  assumes ok: "stageConfession scrypt cfg e message uid w = (w', Returns ())"
    and reply: "post_reply e = PostOk ts"
  shows "table_select ts w' = table_select ts w @
           [(next_key w,
             \<lparr>rec_id = next_key w, approved = False, viewed = False, rec_text = message,
              staging_ts = Some ts, published_ts = None, uid_salt = to_hex (random_bytes e),
              uid_hash = hashUser scrypt uid (to_hex (random_bytes e))\<rparr>)]"
proof -
  let ?created = "\<lparr>rec_id = next_key w, approved = False, viewed = False, rec_text = message,
                   staging_ts = None, published_ts = None, uid_salt = to_hex (random_bytes e),
                   uid_hash = hashUser scrypt uid (to_hex (random_bytes e))\<rparr>"
  let ?flds = "?created\<lparr>staging_ts := Some ts\<rparr>"
  from stageConfession_Returns [OF ok] have c: "create_ok e" and u: "update_ok e" by simp_all
  note w' = ok [unfolded stageConfession_posted [OF c reply u], simplified, symmetric]
  have tab: "table w' = (table w)(next_key w \<mapsto> ?flds)"
    unfolding w' staged_table by simp
  have nk: "next_key w' = Suc (next_key w)"
    unfolding w' staged_next_key by simp
  have "table_select ts w' = table_select ts w @ [(next_key w, ?flds)]"
    by (rule table_select_Suc) (simp_all add: tab nk)
  then show ?thesis by simp
qed

text \<open>
  Claim C4, amended: for every text and identity, and every table in which no record
  carries the time stamp \<open>ts\<close> that the staging post returns, a successful
  \<open>stageConfession\<close> followed immediately by the lookup by \<open>ts\<close> returns exactly one
  record: the one just created, with \<open>approved = false\<close>, \<open>viewed = false\<close>, the
  submitted text and \<open>staging_ts = ts\<close>.
\<close>

theorem stage_then_find:
  assumes ok: "stageConfession scrypt cfg e message uid w = (w', Returns ())"
    and reply: "post_reply e = PostOk ts"
    and fresh: "table_select ts w = []"
  shows "firstPage (table_select ts w') =
           [(next_key w,
             \<lparr>rec_id = next_key w, approved = False, viewed = False, rec_text = message,
              staging_ts = Some ts, published_ts = None, uid_salt = to_hex (random_bytes e),
              uid_hash = hashUser scrypt uid (to_hex (random_bytes e))\<rparr>)]"
  unfolding stage_then_select [OF ok reply] fresh by (simp add: firstPage_def)

text \<open>The round trip on the empty table: submit \<open>hello\<close> as \<open>U123\<close>, then look it up.\<close>

theorem stage_then_find_witness:
  "snd (stageConfession zero_scrypt test_config all_ok ''hello'' ''U123'' empty_world) = Returns ()
   \<and> post_reply all_ok = PostOk ''1700000000.0002''
   \<and> table_select ''1700000000.0002'' empty_world = []
   \<and> firstPage (table_select ''1700000000.0002''
        (fst (stageConfession zero_scrypt test_config all_ok ''hello'' ''U123'' empty_world)))
       = [(0, \<lparr>rec_id = 0, approved = False, viewed = False, rec_text = ''hello'',
                staging_ts = Some ''1700000000.0002'', published_ts = None,
                uid_salt = to_hex (random_bytes all_ok),
                uid_hash = hashUser zero_scrypt ''U123'' (to_hex (random_bytes all_ok))\<rparr>)]"
proof -
  let ?run = "stageConfession zero_scrypt test_config all_ok ''hello'' ''U123'' empty_world"
  have r: "post_reply all_ok = PostOk ''1700000000.0002''" by (simp add: all_ok_def)
  have c: "create_ok all_ok" and u: "update_ok all_ok" by (simp_all add: all_ok_def)
  have ok: "snd ?run = Returns ()"
    unfolding stageConfession_posted [OF c r u] by simp
  then have run: "?run = (fst ?run, Returns ())" by (simp add: prod_eq_iff)
  have nk: "next_key empty_world = 0" by (simp add: empty_world_def)
  show ?thesis
    using ok r table_select_empty_world [of "''1700000000.0002''"]
      stage_then_find [OF run r table_select_empty_world]
    by (simp add: nk)
qed

text \<open>
  Claim C4 as stated (for every text and identity, exactly one record) fails on a
  table that already holds a record with the time stamp of the new staging message:
  \<open>stageConfession\<close> does not look at the table before it stores the time stamp, and
  the lookup after the successful \<open>stageConfession\<close> returns two records, the old one
  and the new one.
\<close>

theorem stage_then_find_two_records:
  "table_select ''1700000000.0001'' staged_world = [(0, hello_record)]
   \<and> snd (stageConfession zero_scrypt test_config
             (all_ok\<lparr>post_reply := PostOk ''1700000000.0001''\<rparr>) ''hello'' ''U123'' staged_world)
       = Returns ()
   \<and> firstPage (table_select ''1700000000.0001''
        (fst (stageConfession zero_scrypt test_config
                (all_ok\<lparr>post_reply := PostOk ''1700000000.0001''\<rparr>) ''hello'' ''U123''
                staged_world)))
       = [(0, hello_record),
          (1, \<lparr>rec_id = 1, approved = False, viewed = False, rec_text = ''hello'',
                staging_ts = Some ''1700000000.0001'', published_ts = None,
                uid_salt = to_hex (random_bytes all_ok),
                uid_hash = hashUser zero_scrypt ''U123'' (to_hex (random_bytes all_ok))\<rparr>)]"
proof -
  let ?e = "all_ok\<lparr>post_reply := PostOk ''1700000000.0001''\<rparr>"
  let ?run = "stageConfession zero_scrypt test_config ?e ''hello'' ''U123'' staged_world"
  have r: "post_reply ?e = PostOk ''1700000000.0001''" by simp
  have c: "create_ok ?e" and u: "update_ok ?e" by (simp_all add: all_ok_def)
  have ok: "snd ?run = Returns ()"
    unfolding stageConfession_posted [OF c r u] by simp
  then have run: "?run = (fst ?run, Returns ())" by (simp add: prod_eq_iff)
  have nk: "next_key staged_world = 1" by (simp add: staged_world_def)
  have rb: "random_bytes ?e = random_bytes all_ok" by simp
  show ?thesis
    using ok stage_then_select [OF run r]
    unfolding table_select_staged_world nk rb
    by (simp add: firstPage_def)
qed

section \<open>Deciding on a confession\<close>

text \<open>
  Claim C5: when the lookup by \<open>staging_ts\<close> returns no record or more than one,
  \<open>viewConfession\<close> throws and the outside world is what it was: no request was sent
  to the messaging platform, no message was posted or deleted, no record was changed.
\<close>

theorem viewConfession_no_single_record:
  assumes "select_ok e" and "length (table_select ts w) \<noteq> 1"
  shows "viewConfession cfg e ts appr w =
           (w, Throws (Thrown (''Failed to find single record with staging_ts='' @ ts @ '', got ''
                                 @ decimal (min 100 (length (table_select ts w))))))"
proof -
  have "length (firstPage (table_select ts w)) \<noteq> 1"
    unfolding length_firstPage using assms(2) by (simp add: min_def)
  then have "(case firstPage (table_select ts w) of
                [(key, flds)] \<Rightarrow> A key flds
              | _ \<Rightarrow> B) = B" for A :: "nat \<Rightarrow> TableRecord \<Rightarrow> world \<times> unit result" and B
    by (rule not_single_case)
  then show ?thesis
    unfolding viewConfession_def Let_def length_firstPage using assms(1) by simp
qed

text \<open>A lookup on the empty table finds no record.\<close>

theorem viewConfession_no_single_record_witness:
  "select_ok all_ok
   \<and> length (table_select ''1700000000.0001'' empty_world) \<noteq> 1
   \<and> viewConfession test_config all_ok ''1700000000.0001'' True empty_world
       = (empty_world,
          Throws (Thrown ''Failed to find single record with staging_ts=1700000000.0001, got 0''))"
proof -
  have s: "select_ok all_ok" by (simp add: all_ok_def)
  have l: "length (table_select ''1700000000.0001'' empty_world) \<noteq> 1"
    by (simp add: table_select_empty_world)
  show ?thesis
    using s l viewConfession_no_single_record [OF s l, of test_config True]
    by (simp add: table_select_empty_world decimal_0)
qed

lemma viewConfession_single_disapprove:
  assumes "table_select ts w = [(key, flds)]" and "select_ok e"
  shows "viewConfession cfg e ts False w = record_decision cfg e ts False key None w"
  using assms by (simp add: viewConfession_def Let_def firstPage_single)

lemma viewConfession_single_approve:
  assumes "table_select ts w = [(key, flds)]" and "select_ok e"
  shows "viewConfession cfg e ts True w =
           (case post_reply e of
              PostThrows \<Rightarrow>
                (chat_postMessage PostThrows (confessions_channel cfg)
                   \<lparr>msg_text = ''*'' @ decimal (rec_id flds) @ ''*: '' @ rec_text flds,
                    blocks = []\<rparr> w, Throws SlackError)
            | PostNotOk \<Rightarrow>
                (chat_postMessage PostNotOk (confessions_channel cfg)
                   \<lparr>msg_text = ''*'' @ decimal (rec_id flds) @ ''*: '' @ rec_text flds,
                    blocks = []\<rparr> w, Throws (Thrown ''Failed to publish message!''))
            | PostOk published \<Rightarrow>
                record_decision cfg e ts True key (Some published)
                  (chat_postMessage (PostOk published) (confessions_channel cfg)
                     \<lparr>msg_text = ''*'' @ decimal (rec_id flds) @ ''*: '' @ rec_text flds,
                      blocks = []\<rparr> w))"
  using assms
  by (cases "post_reply e") (simp_all add: viewConfession_def Let_def firstPage_single)

lemma viewConfession_Returns_select_ok:
  "viewConfession cfg e ts appr w = (w', Returns ()) \<Longrightarrow> select_ok e"
  by (cases "select_ok e") (simp_all add: viewConfession_def)

lemma record_decision_Returns:
  assumes "record_decision cfg e ts appr key p w = (w', Returns ())"
  shows "w' = chat_delete True (staging_channel cfg) ts
                (patchUpdate key (\<lambda>f. f\<lparr>approved := appr, viewed := True, published_ts := p\<rparr>) w)"
proof (cases "update_ok e")
  case False
  with assms show ?thesis by (simp add: record_decision_def)
next
  case True
  show ?thesis
  proof (cases "delete_ok e")
    case False
    with True assms show ?thesis by (simp add: record_decision_def Let_def)
  next
    case d: True
    with True assms show ?thesis by (simp add: record_decision_def Let_def)
  qed
qed

lemma chat_delete_gone: "ts \<notin> fst ` set (channels (chat_delete True ch ts w) ch)"
  by (simp add: chat_delete_def image_iff)

lemma decided_table:
  "table w key = Some flds \<Longrightarrow>
   table (chat_delete ok ch ts (patchUpdate key f w)) = (table w)(key \<mapsto> f flds)"
  by (simp add: chat_delete_def patchUpdate_def)

lemma decided_requests:
  "requests (chat_delete ok ch ts (patchUpdate key f w)) = requests w @ [ChatDelete ch ts]"
  by (simp add: chat_delete_def patchUpdate_def)

lemma posted_fields:
  "table (chat_postMessage reply ch m w) = table w"
  "next_key (chat_postMessage reply ch m w) = next_key w"
  "requests (chat_postMessage reply ch m w) = requests w @ [ChatPostMessage ch m]"
  by (simp_all add: chat_postMessage_def)

lemma posted_channels_not_ok:
  "channels (chat_postMessage PostNotOk ch m w) = channels w"
  by (simp add: chat_postMessage_def)

text \<open>
  Claim C6: when the record with the given \<open>staging_ts\<close> exists and the post to the
  public channel returns \<open>ok == false\<close>, \<open>viewConfession(staging_ts, true)\<close> throws
  \<open>Failed to publish message!\<close>; the table is unchanged (the record is neither viewed
  nor approved), the channels are unchanged, and the only request sent is the post
  itself: the staging message is not deleted.
\<close>

theorem viewConfession_publish_not_ok:
  assumes single: "table_select ts w = [(key, flds)]"
    and sel: "select_ok e" and reply: "post_reply e = PostNotOk"
  shows "snd (viewConfession cfg e ts True w) = Throws (Thrown ''Failed to publish message!'')
         \<and> table (fst (viewConfession cfg e ts True w)) = table w
         \<and> channels (fst (viewConfession cfg e ts True w)) = channels w
         \<and> requests (fst (viewConfession cfg e ts True w)) = requests w @
              [ChatPostMessage (confessions_channel cfg)
                 \<lparr>msg_text = ''*'' @ decimal (rec_id flds) @ ''*: '' @ rec_text flds, blocks = []\<rparr>]"
  unfolding viewConfession_single_approve [OF single sel] reply
  by (simp add: posted_fields posted_channels_not_ok)

text \<open>The staged confession \<open>hello\<close>, approved, with a public post that is not ok.\<close>

theorem viewConfession_publish_not_ok_witness:
  "table_select ''1700000000.0001'' staged_world = [(0, hello_record)]
   \<and> select_ok (all_ok\<lparr>post_reply := PostNotOk\<rparr>)
   \<and> post_reply (all_ok\<lparr>post_reply := PostNotOk\<rparr>) = PostNotOk
   \<and> snd (viewConfession test_config (all_ok\<lparr>post_reply := PostNotOk\<rparr>)
             ''1700000000.0001'' True staged_world)
       = Throws (Thrown ''Failed to publish message!'')
   \<and> table (fst (viewConfession test_config (all_ok\<lparr>post_reply := PostNotOk\<rparr>)
                    ''1700000000.0001'' True staged_world)) = table staged_world
   \<and> channels (fst (viewConfession test_config (all_ok\<lparr>post_reply := PostNotOk\<rparr>)
                       ''1700000000.0001'' True staged_world)) = channels staged_world
   \<and> requests (fst (viewConfession test_config (all_ok\<lparr>post_reply := PostNotOk\<rparr>)
                       ''1700000000.0001'' True staged_world))
       = [ChatPostMessage ''C-confessions'' \<lparr>msg_text = ''*0*: hello'', blocks = []\<rparr>]"
proof -
  let ?e = "all_ok\<lparr>post_reply := PostNotOk\<rparr>"
  have s: "select_ok ?e" and r: "post_reply ?e = PostNotOk" by (simp_all add: all_ok_def)
  have "requests staged_world = []" and "confessions_channel test_config = ''C-confessions''"
    and "rec_id hello_record = 0" and "rec_text hello_record = ''hello''"
    by (simp_all add: staged_world_def test_config_def hello_record_def)
  then show ?thesis
    using s r table_select_staged_world
      viewConfession_publish_not_ok [OF table_select_staged_world s r, of test_config]
    by (simp add: decimal_0)
qed

text \<open>
  Claim C7: when the record with the given \<open>staging_ts\<close> exists and
  \<open>viewConfession(staging_ts, true)\<close> succeeds, with \<open>p\<close> the time stamp of the new
  public message: exactly one message was posted, to the public channel, and its text
  is made of the record's id and text only; the record has \<open>approved = true\<close>,
  \<open>viewed = true\<close> and \<open>published_ts = p\<close>; a deletion of the staging message was
  sent and the staging channel holds no message with that time stamp.
\<close>

theorem viewConfession_approve:
  assumes single: "table_select ts w = [(key, flds)]"
    and reply: "post_reply e = PostOk p"
    and ok: "viewConfession cfg e ts True w = (w', Returns ())"
  shows "requests w' = requests w @
           [ChatPostMessage (confessions_channel cfg)
              \<lparr>msg_text = ''*'' @ decimal (rec_id flds) @ ''*: '' @ rec_text flds, blocks = []\<rparr>,
            ChatDelete (staging_channel cfg) ts]
         \<and> table w' = (table w)(key \<mapsto> flds\<lparr>approved := True, viewed := True, published_ts := Some p\<rparr>)
         \<and> ts \<notin> fst ` set (channels w' (staging_channel cfg))"
proof -
  let ?m = "\<lparr>msg_text = ''*'' @ decimal (rec_id flds) @ ''*: '' @ rec_text flds, blocks = []\<rparr>"
  let ?w1 = "chat_postMessage (PostOk p) (confessions_channel cfg) ?m w"
  have sel: "select_ok e" using ok by (rule viewConfession_Returns_select_ok)
  have stored: "table w key = Some flds" using single by (rule table_select_single)
  have dec: "record_decision cfg e ts True key (Some p) ?w1 = (w', Returns ())"
    using ok unfolding viewConfession_single_approve [OF single sel] reply by simp
  note w' = record_decision_Returns [OF dec]
  have "requests w' = requests w @ [ChatPostMessage (confessions_channel cfg) ?m,
                                    ChatDelete (staging_channel cfg) ts]"
    unfolding w' by (simp add: decided_requests posted_fields)
  moreover have "table w' = (table w)(key \<mapsto> flds\<lparr>approved := True, viewed := True, published_ts := Some p\<rparr>)"
    unfolding w' using stored by (simp add: decided_table posted_fields)
  moreover have "ts \<notin> fst ` set (channels w' (staging_channel cfg))"
    unfolding w' by (rule chat_delete_gone)
  ultimately show ?thesis by blast
qed

text \<open>The staged confession \<open>hello\<close>, approved.\<close>

theorem viewConfession_approve_witness:
  "table_select ''1700000000.0001'' staged_world = [(0, hello_record)]
   \<and> post_reply all_ok = PostOk ''1700000000.0002''
   \<and> snd (viewConfession test_config all_ok ''1700000000.0001'' True staged_world) = Returns ()
   \<and> requests (fst (viewConfession test_config all_ok ''1700000000.0001'' True staged_world))
       = [ChatPostMessage ''C-confessions'' \<lparr>msg_text = ''*0*: hello'', blocks = []\<rparr>,
          ChatDelete ''C-staging'' ''1700000000.0001'']
   \<and> table (fst (viewConfession test_config all_ok ''1700000000.0001'' True staged_world)) 0
       = Some (hello_record\<lparr>approved := True, viewed := True,
                 published_ts := Some ''1700000000.0002''\<rparr>)
   \<and> ''1700000000.0001'' \<notin> fst ` set (channels
         (fst (viewConfession test_config all_ok ''1700000000.0001'' True staged_world))
         ''C-staging'')"
proof -
  let ?run = "viewConfession test_config all_ok ''1700000000.0001'' True staged_world"
  have s: "select_ok all_ok" and r: "post_reply all_ok = PostOk ''1700000000.0002''"
    and u: "update_ok all_ok" and d: "delete_ok all_ok"
    by (simp_all add: all_ok_def)
  have ok: "snd ?run = Returns ()"
    unfolding viewConfession_single_approve [OF table_select_staged_world s] r
    by (simp add: record_decision_def u d)
  then have run: "?run = (fst ?run, Returns ())" by (simp add: prod_eq_iff)
  have "requests staged_world = []" and "confessions_channel test_config = ''C-confessions''"
    and "staging_channel test_config = ''C-staging''"
    and "rec_id hello_record = 0" and "rec_text hello_record = ''hello''"
    by (simp_all add: staged_world_def test_config_def hello_record_def)
  then show ?thesis
    using ok r table_select_staged_world
      viewConfession_approve [OF table_select_staged_world r run]
    by (simp add: decimal_0)
qed

text \<open>
  Claim C8: when the record with the given \<open>staging_ts\<close> exists and
  \<open>viewConfession(staging_ts, false)\<close> succeeds: the only request sent is the deletion
  of the staging message, so nothing was posted to the public channel; the record has
  \<open>approved = false\<close>, \<open>viewed = true\<close> and no \<open>published_ts\<close>; the staging channel
  holds no message with that time stamp.
\<close>

theorem viewConfession_disapprove:
  assumes single: "table_select ts w = [(key, flds)]"
    and ok: "viewConfession cfg e ts False w = (w', Returns ())"
  shows "requests w' = requests w @ [ChatDelete (staging_channel cfg) ts]
           \<and> table w' = (table w)(key \<mapsto> flds\<lparr>approved := False, viewed := True, published_ts := None\<rparr>)
           \<and> ts \<notin> fst ` set (channels w' (staging_channel cfg))"
proof -
  have sel: "select_ok e" using ok by (rule viewConfession_Returns_select_ok)
  have stored: "table w key = Some flds" using single by (rule table_select_single)
  have dec: "record_decision cfg e ts False key None w = (w', Returns ())"
    using ok unfolding viewConfession_single_disapprove [OF single sel] by simp
  note w' = record_decision_Returns [OF dec]
  have "requests w' = requests w @ [ChatDelete (staging_channel cfg) ts]"
    unfolding w' by (simp add: decided_requests)
  moreover have "table w' = (table w)(key \<mapsto> flds\<lparr>approved := False, viewed := True, published_ts := None\<rparr>)"
    unfolding w' using stored by (simp add: decided_table)
  moreover have "ts \<notin> fst ` set (channels w' (staging_channel cfg))"
    unfolding w' by (rule chat_delete_gone)
  ultimately show ?thesis by blast
qed

text \<open>The staged confession \<open>hello\<close>, disapproved.\<close>

theorem viewConfession_disapprove_witness:
  "table_select ''1700000000.0001'' staged_world = [(0, hello_record)]
   \<and> snd (viewConfession test_config all_ok ''1700000000.0001'' False staged_world) = Returns ()
   \<and> requests (fst (viewConfession test_config all_ok ''1700000000.0001'' False staged_world))
       = [ChatDelete ''C-staging'' ''1700000000.0001'']
   \<and> table (fst (viewConfession test_config all_ok ''1700000000.0001'' False staged_world)) 0
       = Some (hello_record\<lparr>approved := False, viewed := True, published_ts := None\<rparr>)
   \<and> ''1700000000.0001'' \<notin> fst ` set (channels
         (fst (viewConfession test_config all_ok ''1700000000.0001'' False staged_world))
         ''C-staging'')"
proof -
  let ?run = "viewConfession test_config all_ok ''1700000000.0001'' False staged_world"
  have s: "select_ok all_ok" and u: "update_ok all_ok" and d: "delete_ok all_ok"
    by (simp_all add: all_ok_def)
  have ok: "snd ?run = Returns ()"
    unfolding viewConfession_single_disapprove [OF table_select_staged_world s]
    by (simp add: record_decision_def u d)
  then have run: "?run = (fst ?run, Returns ())" by (simp add: prod_eq_iff)
  have "requests staged_world = []" and "staging_channel test_config = ''C-staging''"
    by (simp_all add: staged_world_def test_config_def)
  then show ?thesis
    using ok table_select_staged_world
      viewConfession_disapprove [OF table_select_staged_world run]
    by simp
qed

section \<open>The event handler\<close>

text \<open>No response of the handler has a body, whatever the payload.\<close>

lemma handler_body_empty:
  assumes "snd (handler hmac cfg e req w) = Returns r"
  shows "res_body r = []"
proof (cases "nonce_ok e")
  case False
  with assms have "r = \<lparr>status = 400, res_body = []\<rparr>"
    by (simp add: handler_def)
  then show ?thesis by simp
next
  case n: True
  show ?thesis
  proof (cases "verifySignature hmac (slack_signing_secret cfg) (date_now e) req")
    case (Throws x)
    with n assms show ?thesis by (simp add: handler_def)
  next
    case (Returns isValid)
    show ?thesis
    proof (cases isValid)
      case False
      with n Returns assms have "r = \<lparr>status = 400, res_body = []\<rparr>"
        by (simp add: handler_def)
      then show ?thesis by simp
    next
      case v: True
      have "r = \<lparr>status = 204, res_body = []\<rparr>"
        using n Returns v assms
        by (simp add: handler_def Let_def split: if_splits option.splits post_reply.splits)
      then show ?thesis by simp
    qed
  qed
qed

text \<open>
  Claim C2, amended: for every payload whose \<open>type\<close> is \<open>url_verification\<close>, in a
  request that passes the replay guard and the signature check, the handler answers
  with status 204 and an empty body and sends nothing to the messaging platform; the
  \<open>challenge\<close> is not part of the response.
\<close>

theorem handler_url_verification:
  assumes "nonce_ok e"
    and "verifySignature hmac (slack_signing_secret cfg) (date_now e) req = Returns True"
    and "payload_type (body req) = ''url_verification''"
  shows "handler hmac cfg e req w = (w, Returns \<lparr>status = 204, res_body = []\<rparr>)"
  using assms by (simp add: handler_def)

text \<open>A handshake request with a valid signature, while a confession is staged.\<close>

theorem handler_url_verification_witness:
  "nonce_ok all_ok
   \<and> verifySignature zero_hmac (slack_signing_secret test_config) (date_now all_ok)
        challenge_request = Returns True
   \<and> payload_type (body challenge_request) = ''url_verification''
   \<and> handler zero_hmac test_config all_ok challenge_request staged_world
        = (staged_world, Returns \<lparr>status = 204, res_body = []\<rparr>)"
proof -
  have n: "nonce_ok all_ok" by (simp add: all_ok_def)
  have v: "verifySignature zero_hmac (slack_signing_secret test_config) (date_now all_ok)
             challenge_request = Returns True"
    using challenge_request_valid by (simp add: test_config_def all_ok_def)
  have t: "payload_type (body challenge_request) = ''url_verification''"
    by (simp add: challenge_request_def)
  show ?thesis using n v t handler_url_verification [OF n v t, of staged_world] by simp
qed

text \<open>
  Claim C2 as stated (the handler echoes the \<open>challenge\<close> of a \<open>url_verification\<close>
  payload) fails: for the challenge \<open>abc\<close>, in a request with a valid signature, the
  response is the status 204 with an empty body.
\<close>

theorem handler_does_not_echo_challenge:
  "payload_type (body challenge_request) = ''url_verification''
   \<and> challenge (body challenge_request) = Some ''abc''
   \<and> handler zero_hmac test_config all_ok challenge_request empty_world
       = (empty_world, Returns \<lparr>status = 204, res_body = []\<rparr>)"
proof -
  have "handler zero_hmac test_config all_ok challenge_request empty_world
       = (empty_world, Returns \<lparr>status = 204, res_body = []\<rparr>)"
    using challenge_request_valid
    by (simp add: handler_def test_config_def all_ok_def) (simp add: challenge_request_def)
  then show ?thesis by (simp add: challenge_request_def)
qed

end
